theory Spec2Isabelle
  imports Complex_Main
begin

section \<open>Python values, exceptions and subscripting\<close>

text \<open>
  The response of the vendor SDK is turned into a dictionary by \<^verbatim>\<open>to_dict()\<close>, and
  \<^verbatim>\<open>app.py\<close> navigates it with subscripts. The values are those of JSON. A dictionary
  is an association list read with \<open>map_of\<close>. A \<open>char\<close> stands for one character of a
  Python string.
\<close>

datatype json =
    JNull
  | JBool bool
  | JInt int
  | JFloat real
  | JStr string
  | JList "json list"
  | JDict "(string \<times> json) list"

text \<open>
  The exceptions the script can meet. \<open>KeyError\<close> carries the missing key and
  \<open>ValueError\<close> the value that \<^verbatim>\<open>list.index\<close> did not find. \<open>SdkError\<close> is any exception
  raised by \<^verbatim>\<open>transcribe_file\<close> (network failures, time-outs, API errors), with its
  message. \<open>FileNotFoundError\<close> is what \<^verbatim>\<open>st.secrets\<close> raises when it is read and no secrets
  file exists.
\<close>

datatype exn =
    KeyError json
  | IndexError string
  | TypeError string
  | AttributeError string
  | ValueError json
  | FileNotFoundError string
  | SdkError string

text \<open>
  \<^verbatim>\<open>str(e)\<close>. For a \<open>KeyError\<close> it is the \<^verbatim>\<open>repr\<close> of the key, for the \<open>ValueError\<close> of
  \<^verbatim>\<open>list.index\<close> it is the \<^verbatim>\<open>repr\<close> of the value followed by a fixed text. Python's
  \<^verbatim>\<open>repr\<close> is the parameter \<open>rp\<close>.
\<close>

fun str_exn :: "(json \<Rightarrow> string) \<Rightarrow> exn \<Rightarrow> string" where
  "str_exn rp (KeyError k) = rp k"
| "str_exn rp (IndexError m) = m"
| "str_exn rp (TypeError m) = m"
| "str_exn rp (AttributeError m) = m"
| "str_exn rp (ValueError v) = rp v @ '' is not in list''"
| "str_exn rp (FileNotFoundError m) = m"
| "str_exn rp (SdkError m) = m"

fun type_name :: "json \<Rightarrow> string" where
  "type_name JNull = ''NoneType''"
| "type_name (JBool _) = ''bool''"
| "type_name (JInt _) = ''int''"
| "type_name (JFloat _) = ''float''"
| "type_name (JStr _) = ''str''"
| "type_name (JList _) = ''list''"
| "type_name (JDict _) = ''dict''"

text \<open>Truth value of an object, as \<^verbatim>\<open>if x:\<close> tests it.\<close>

fun truthy :: "json \<Rightarrow> bool" where
  "truthy JNull = False"
| "truthy (JBool b) = b"
| "truthy (JInt i) = (i \<noteq> 0)"
| "truthy (JFloat x) = (x \<noteq> 0)"
| "truthy (JStr s) = (s \<noteq> [])"
| "truthy (JList xs) = (xs \<noteq> [])"
| "truthy (JDict d) = (d \<noteq> [])"

definition quoted :: "string \<Rightarrow> string" where
  "quoted s = [CHR 0x27] @ s @ [CHR 0x27]"

datatype subscript = Key string | Index nat

text \<open>\<^verbatim>\<open>obj[k]\<close> for a string key or a non-negative integer index.\<close>

fun getitem :: "json \<Rightarrow> subscript \<Rightarrow> exn + json" where
  "getitem (JDict d) (Key k) =
     (case map_of d k of Some v \<Rightarrow> Inr v | None \<Rightarrow> Inl (KeyError (JStr k)))"
| "getitem (JDict d) (Index i) = Inl (KeyError (JInt (int i)))"
| "getitem (JList xs) (Index i) =
     (if i < length xs then Inr (xs ! i) else Inl (IndexError ''list index out of range''))"
| "getitem (JList xs) (Key k) =
     Inl (TypeError ''list indices must be integers or slices, not str'')"
| "getitem (JStr s) (Index i) =
     (if i < length s then Inr (JStr [s ! i]) else Inl (IndexError ''string index out of range''))"
| "getitem (JStr s) (Key k) =
     Inl (TypeError (''string indices must be integers, not '' @ quoted ''str''))"
| "getitem v _ = Inl (TypeError (quoted (type_name v) @ '' object is not subscriptable''))"

text \<open>A chain of subscripts \<^verbatim>\<open>obj[k1][k2]...\<close>, stopping at the first exception.\<close>

fun subscripts :: "json \<Rightarrow> subscript list \<Rightarrow> exn + json" where
  "subscripts v [] = Inr v"
| "subscripts v (k # ks) =
     (case getitem v k of Inl e \<Rightarrow> Inl e | Inr w \<Rightarrow> subscripts w ks)"

text \<open>\<^verbatim>\<open>obj.get(k, None)\<close>: only a dictionary has the method.\<close>

fun py_get :: "json \<Rightarrow> string \<Rightarrow> exn + json" where
  "py_get (JDict d) k = Inr (case map_of d k of Some v \<Rightarrow> v | None \<Rightarrow> JNull)"
| "py_get v k =
     Inl (AttributeError (quoted (type_name v) @ '' object has no attribute '' @ quoted ''get''))"

text \<open>\<^verbatim>\<open>xs.index(x)\<close>: the position of the first element equal to \<open>x\<close>.\<close>

fun index_from :: "nat \<Rightarrow> json list \<Rightarrow> json \<Rightarrow> exn + nat" where
  "index_from n [] x = Inl (ValueError x)"
| "index_from n (y # ys) x = (if y = x then Inr n else index_from (Suc n) ys x)"

definition py_index :: "json list \<Rightarrow> json \<Rightarrow> exn + nat" where
  "py_index xs x = index_from 0 xs x"

text \<open>\<^verbatim>\<open>s.endswith(suf)\<close>.\<close>

definition endswith :: "string \<Rightarrow> string \<Rightarrow> bool" where
  "endswith s suf = (length suf \<le> length s \<and> drop (length s - length suf) s = suf)"

section \<open>Tables of the script\<close>

definition MODELS :: "(string \<times> string) list" where
  "MODELS =
     [(''Nova-2'', ''nova-2-ea''),
      (''Nova'', ''nova''),
      (''Whisper Cloud'', ''whisper-medium''),
      (''Enhanced'', ''enhanced''),
      (''Base'', ''base'')]"

definition LANGUAGES :: "(string \<times> json) list" where
  "LANGUAGES =
     [(''Automatic Language Detection'', JNull),
      (''English'', JStr ''en''),
      (''French'', JStr ''fr''),
      (''Hindi'', JStr ''hi'')]"

section \<open>The form and the options object\<close>

text \<open>
  What the widgets return in one run of the script, under the names of the variables
  they are assigned to. The checkboxes \<open>numbers\<close>, \<open>pci\<close> and \<open>ssn\<close>, the text input
  \<open>search_terms\<close> and the number input \<open>utt_split\<close> are rendered, and read, only when the
  checkbox above them is checked. \<open>clicked\<close> is the Transcribe button.
\<close>

record form =
  language :: string
  model :: string
  deepgram_api_key :: string
  detect_topics :: bool
  diarize :: bool
  detect_entities :: bool
  multichannel :: bool
  paragraphs :: bool
  profanity_filter :: bool
  punctuate :: bool
  redact :: bool
  numbers :: bool
  pci :: bool
  ssn :: bool
  search :: bool
  search_terms :: string
  smart_format :: bool
  summarize :: bool
  utterances :: bool
  utt_split :: real
  clicked :: bool

text \<open>
  \<^verbatim>\<open>PrerecordedOptions\<close> is the vendor SDK's options class. Each field is the keyword
  argument of the same name; an argument the constructor call does not pass keeps the
  SDK's default \<^verbatim>\<open>None\<close>, which matters for \<open>opt_language\<close> and \<open>opt_detect_language\<close>.
\<close>

record PrerecordedOptions =
  opt_model :: string
  opt_detect_topics :: bool
  opt_diarize :: bool
  opt_detect_entities :: bool
  opt_multichannel :: bool
  opt_paragraphs :: bool
  opt_profanity_filter :: bool
  opt_punctuate :: bool
  opt_redact :: "string list"
  opt_smart_format :: bool
  opt_summarize :: bool
  opt_search :: string
  opt_utterances :: bool
  opt_utt_split :: real
  opt_language :: "json option"
  opt_detect_language :: "json option"

text \<open>Lines 98 to 102: the dictionary \<^verbatim>\<open>lang_options\<close>, with its single entry.\<close>

definition lang_options :: "form \<Rightarrow> exn + (string \<times> json) list" where
  "lang_options f =
     (if language f = ''Automatic Language Detection''
      then Inr [(''detect_language'', JBool True)]
      else (case map_of LANGUAGES (language f) of
              Some v \<Rightarrow> Inr [(''language'', v)]
            | None \<Rightarrow> Inl (KeyError (JStr (language f)))))"

text \<open>
  Lines 176 to 193. Without the Redaction checkbox the three variables are \<^verbatim>\<open>None\<close>,
  which is false in a condition.
\<close>

definition redact_options :: "form \<Rightarrow> string option list" where
  "redact_options f =
     (let pci' = (if redact f then Some (pci f) else None);
          ssn' = (if redact f then Some (ssn f) else None);
          numbers' = (if redact f then Some (numbers f) else None)
      in [if pci' = Some True then Some ''pci'' else None,
          if ssn' = Some True then Some ''ssn'' else None,
          if numbers' = Some True then Some ''numbers'' else None])"

text \<open>Lines 195 to 209 and 226 to 242: the values of the two conditional inputs.\<close>

definition search_terms_value :: "form \<Rightarrow> string" where
  "search_terms_value f = (if search f then search_terms f else [])"

definition utt_split_value :: "form \<Rightarrow> real" where
  "utt_split_value f = (if utterances f then utt_split f else 0.8)"

text \<open>
  Lines 287 to 302: the options object. \<^verbatim>\<open>MODELS[model]\<close> raises \<open>KeyError\<close> for a name
  that is not in the table. The list comprehension keeps the entries of
  \<open>redact_options\<close> that are not \<^verbatim>\<open>None\<close>. \<^verbatim>\<open>search_terms or ""\<close> is \<open>search_terms\<close>
  itself, a string.
\<close>

definition build_options :: "form \<Rightarrow> exn + PrerecordedOptions" where
  "build_options f =
     (case map_of MODELS (model f) of
        None \<Rightarrow> Inl (KeyError (JStr (model f)))
      | Some m \<Rightarrow>
          Inr \<lparr> opt_model = m,
                opt_detect_topics = detect_topics f,
                opt_diarize = diarize f,
                opt_detect_entities = detect_entities f,
                opt_multichannel = multichannel f,
                opt_paragraphs = paragraphs f,
                opt_profanity_filter = profanity_filter f,
                opt_punctuate = punctuate f,
                opt_redact = concat (map (\<lambda>option. case option of Some s \<Rightarrow> [s] | None \<Rightarrow> [])
                                         (redact_options f)),
                opt_smart_format = smart_format f,
                opt_summarize = summarize f,
                opt_search = ''['' @ search_terms_value f @ '']'',
                opt_utterances = utterances f,
                opt_utt_split = utt_split_value f,
                opt_language = None,
                opt_detect_language = None \<rparr>)"

section \<open>The page, the vendor and the cache\<close>

text \<open>
  What the script puts on the page, one constructor for each kind of call:
  the detected-language line of line 60 with the code and the display name it formats,
  \<^verbatim>\<open>st.tabs\<close> with the tab labels (without their pictographs), \<^verbatim>\<open>tabN.write(x)\<close>,
  \<^verbatim>\<open>st.error(e)\<close> of the rendering code, the two \<^verbatim>\<open>st.error\<close> messages of the click handler,
  \<^verbatim>\<open>st.code(traceback.format_exc())\<close> for the exception being handled, and \<^verbatim>\<open>st.error\<close> with
  a fixed text.
\<close>

datatype event =
    Write_detected_language json string
  | Tabs "string list"
  | Tab_write nat json
  | Error_exn exn
  | Error_timed_out exn
  | Error_generic exn
  | Code_traceback exn
  | Error_text string

datatype client = DeepgramClient string

record source =
  buffer :: "string option"

text \<open>
  A request to the vendor: the client that sends it, the payload's buffer and the
  options. The vendor is a parameter: its answer to a request may depend on how many
  requests came before, since the remote service is not a function of its input.
\<close>

type_synonym request = "client \<times> string option \<times> PrerecordedOptions"

type_synonym vendor = "nat \<Rightarrow> request \<Rightarrow> exn + json"

definition transcribe_file ::
  "vendor \<Rightarrow> request list \<Rightarrow> request \<Rightarrow> request list \<times> (exn + json)" where
  "transcribe_file api sent rq = (sent @ [rq], api (length sent) rq)"

text \<open>
  The state that outlives a run of the script: the entries of \<^verbatim>\<open>st.cache_data\<close> for
  \<^verbatim>\<open>prerecorded\<close>, keyed by the arguments of the call, each with the elements to replay
  (the function returns \<^verbatim>\<open>None\<close>), and the requests sent so far. \<open>page\<close> is the output of
  the current run.
\<close>

record app =
  cache :: "((source \<times> PrerecordedOptions) \<times> event list) list"
  requests :: "request list"
  page :: "event list"

section \<open>The function prerecorded\<close>

text \<open>Lines 59 to 62.\<close>

definition detected_language_line :: "json \<Rightarrow> exn + event list" where
  "detected_language_line response =
     (case subscripts response [Key ''results'', Key ''channels'', Index 0] of
        Inl e \<Rightarrow> Inl e
      | Inr channel \<Rightarrow>
          (case py_get channel ''detected_language'' of
             Inl e \<Rightarrow> Inl e
           | Inr detected_language \<Rightarrow>
               if truthy detected_language
               then (case py_index (map snd LANGUAGES) detected_language of
                       Inl e \<Rightarrow> Inl e
                     | Inr i \<Rightarrow>
                         Inr [Write_detected_language detected_language (map fst LANGUAGES ! i)])
               else Inr []))"

text \<open>Lines 65 to 74: the tabs, and the summary in the third one.\<close>

definition summary_path :: "subscript list" where
  "summary_path =
     [Key ''results'', Key ''channels'', Index 0, Key ''alternatives'', Index 0,
      Key ''summaries'', Index 0, Key ''summary'']"

definition make_tabs :: "form \<Rightarrow> json \<Rightarrow> event list" where
  "make_tabs f response =
     (if summarize f
      then Tabs [''Response'', ''Transcript'', ''Summary''] #
           (case subscripts response summary_path of
              Inl e \<Rightarrow> [Error_exn e]
            | Inr v \<Rightarrow> [Tab_write 3 v])
      else [Tabs [''Response'', ''Transcript'']])"

text \<open>Lines 79 to 87: the second tab.\<close>

definition paragraphs_transcript_path :: "subscript list" where
  "paragraphs_transcript_path =
     [Key ''results'', Key ''channels'', Index 0, Key ''alternatives'', Index 0,
      Key ''paragraphs'', Key ''transcript'']"

definition transcript_path :: "subscript list" where
  "transcript_path =
     [Key ''results'', Key ''channels'', Index 0, Key ''alternatives'', Index 0,
      Key ''transcript'']"

definition write_transcript :: "form \<Rightarrow> json \<Rightarrow> event list" where
  "write_transcript f response =
     (case (if paragraphs f \<or> smart_format f
            then subscripts response paragraphs_transcript_path
            else subscripts response transcript_path) of
        Inl e \<Rightarrow> [Error_exn e]
      | Inr v \<Rightarrow> [Tab_write 2 v])"

text \<open>
  The body of \<^verbatim>\<open>prerecorded\<close>, lines 48 to 87. It reads the globals \<^verbatim>\<open>deepgram\<close>,
  \<^verbatim>\<open>summarize\<close>, \<^verbatim>\<open>paragraphs\<close> and \<^verbatim>\<open>smart_format\<close>. It returns the request log, the
  elements it has put on the page and \<open>Inl e\<close> when the exception \<open>e\<close> leaves it.
\<close>

definition prerecorded_body ::
  "vendor \<Rightarrow> client \<Rightarrow> form \<Rightarrow> request list \<Rightarrow> source \<Rightarrow> PrerecordedOptions
     \<Rightarrow> request list \<times> event list \<times> (exn + unit)" where
  "prerecorded_body api deepgram f sent src options =
     (let payload = buffer src
      in case transcribe_file api sent (deepgram, payload, options) of
           (sent', Inl e) \<Rightarrow> (sent', [], Inl e)
         | (sent', Inr response) \<Rightarrow>
             (case detected_language_line response of
                Inl e \<Rightarrow> (sent', [], Inl e)
              | Inr line \<Rightarrow>
                  (sent',
                   line @ make_tabs f response @ [Tab_write 1 response] @
                     write_transcript f response,
                   Inr ())))"

text \<open>
  \<^verbatim>\<open>prerecorded\<close> as the script calls it, under \<^verbatim>\<open>@st.cache_data\<close> (line 46): a call with
  arguments that have an entry returns the stored result and replays the stored
  elements without running the body; otherwise the body runs, and its result is stored
  unless an exception leaves it.
\<close>

definition prerecorded ::
  "vendor \<Rightarrow> client \<Rightarrow> form \<Rightarrow> app \<Rightarrow> source \<Rightarrow> PrerecordedOptions \<Rightarrow> app \<times> (exn + unit)" where
  "prerecorded api deepgram f s src options =
     (case map_of (cache s) (src, options) of
        Some elements \<Rightarrow> (s\<lparr>page := page s @ elements\<rparr>, Inr ())
      | None \<Rightarrow>
          (case prerecorded_body api deepgram f (requests s) src options of
             (sent', elements, Inl e) \<Rightarrow>
               (s\<lparr>requests := sent', page := page s @ elements\<rparr>, Inl e)
           | (sent', elements, Inr u) \<Rightarrow>
               (s\<lparr>cache := cache s @ [((src, options), elements)],
                  requests := sent', page := page s @ elements\<rparr>, Inr u)))"

text \<open>
  A sequence of invocations of \<^verbatim>\<open>prerecorded\<close>, each with its vendor, client, globals,
  source and options, as successive clicks make them.
\<close>

fun prerecorded_calls ::
  "app \<Rightarrow> (vendor \<times> client \<times> form \<times> source \<times> PrerecordedOptions) list \<Rightarrow> app" where
  "prerecorded_calls s [] = s"
| "prerecorded_calls s ((api, deepgram, f, src, options) # calls) =
     prerecorded_calls (fst (prerecorded api deepgram f s src options)) calls"

section \<open>The click handler and the script\<close>

text \<open>Lines 321 to 338: what runs when the Transcribe button is clicked.\<close>

definition handler ::
  "(json \<Rightarrow> string) \<Rightarrow> vendor \<Rightarrow> client \<Rightarrow> form \<Rightarrow> app \<Rightarrow> source \<Rightarrow> PrerecordedOptions
     \<Rightarrow> app \<times> (exn + unit)" where
  "handler rp api deepgram f s src options =
     (case prerecorded api deepgram f s src options of
        (s', Inr u) \<Rightarrow> (s', Inr ())
      | (s', Inl e) \<Rightarrow>
          if endswith (str_exn rp e) ''timed out''
          then (s'\<lparr>page := page s' @ [Error_timed_out e]\<rparr>, Inr ())
          else (s'\<lparr>page := page s' @ [Error_generic e, Code_traceback e]\<rparr>, Inr ()))"

text \<open>
  \<^verbatim>\<open>st.secrets\<close>: the entries of the secrets file, or no secrets file at all. Without a
  file, every read of \<^verbatim>\<open>st.secrets\<close>, the test \<^verbatim>\<open>"DEEPGRAM_API_KEY" in st.secrets\<close> of
  line 125 included, raises \<open>FileNotFoundError\<close>; the string is the message of that
  exception, which lists the paths searched.
\<close>

datatype secrets = No_secrets_file string | Secrets_file "string \<rightharpoonup> string"

text \<open>
  Lines 114 to 131: the variable \<^verbatim>\<open>deepgram_api_key\<close> after the sidebar's setup, \<open>Inr None\<close>
  when the script shows the error and calls \<^verbatim>\<open>st.stop()\<close>, and \<open>Inl e\<close> when the test of
  line 125 raises. The environment is a map from names to values.
\<close>

definition resolve_api_key ::
  "form \<Rightarrow> secrets \<Rightarrow> (string \<rightharpoonup> string) \<Rightarrow> exn + string option" where
  "resolve_api_key f secrets environ =
     (if deepgram_api_key f = []
      then (case secrets of
              No_secrets_file message \<Rightarrow> Inl (FileNotFoundError message)
            | Secrets_file entries \<Rightarrow>
                (case entries ''DEEPGRAM_API_KEY'' of
                   Some v \<Rightarrow> Inr (Some v)
                 | None \<Rightarrow>
                     (case environ ''DEEPGRAM_API_KEY'' of
                        Some v \<Rightarrow> Inr (Some v)
                      | None \<Rightarrow> Inr None)))
      else Inr (Some (deepgram_api_key f)))"

datatype ending = Completed | Stopped | Crashed exn

text \<open>
  One run of the script. The choice of the audio (lines 259 to 285 and 304 to 312) is
  represented by its result, the buffer \<open>audio\<close>. The result carries the client when line
  133 has created one. The button is disabled without a key.
\<close>

definition script ::
  "(json \<Rightarrow> string) \<Rightarrow> vendor \<Rightarrow> secrets \<Rightarrow> (string \<rightharpoonup> string) \<Rightarrow> string option
     \<Rightarrow> form \<Rightarrow> app \<Rightarrow> app \<times> client option \<times> ending" where
  "script rp api secrets environ audio f s0 =
     (let s = s0\<lparr>page := []\<rparr>
      in case lang_options f of
           Inl e \<Rightarrow> (s, None, Crashed e)
         | Inr lang \<Rightarrow>
             (case resolve_api_key f secrets environ of
                Inl e \<Rightarrow> (s, None, Crashed e)
              | Inr None \<Rightarrow>
                  (s\<lparr>page := [Error_text ''Please enter your Deepgram API key to continue'']\<rparr>,
                   None, Stopped)
              | Inr (Some key) \<Rightarrow>
                  (let deepgram = DeepgramClient key
                   in case build_options f of
                        Inl e \<Rightarrow> (s, Some deepgram, Crashed e)
                      | Inr options \<Rightarrow>
                          (let src = \<lparr>buffer = audio\<rparr>
                           in if clicked f \<and> key \<noteq> []
                              then (case handler rp api deepgram f s src options of
                                      (s', Inl e) \<Rightarrow> (s', Some deepgram, Crashed e)
                                    | (s', Inr u) \<Rightarrow> (s', Some deepgram, Completed))
                              else (s, Some deepgram, Completed)))))"

section \<open>Reading the page\<close>

text \<open>The values written into tab \<open>n\<close>, in order, and the labels of the tabs created.\<close>

fun written_to :: "nat \<Rightarrow> event list \<Rightarrow> json list" where
  "written_to n [] = []"
| "written_to n (Tab_write m v # evs) =
     (if m = n then v # written_to n evs else written_to n evs)"
| "written_to n (ev # evs) = written_to n evs"

fun tab_labels :: "event list \<Rightarrow> string list" where
  "tab_labels [] = []"
| "tab_labels (Tabs labels # evs) = labels @ tab_labels evs"
| "tab_labels (ev # evs) = tab_labels evs"

fun detected_lines :: "event list \<Rightarrow> (json \<times> string) list" where
  "detected_lines [] = []"
| "detected_lines (Write_detected_language code name # evs) = (code, name) # detected_lines evs"
| "detected_lines (ev # evs) = detected_lines evs"

section \<open>Concrete inputs\<close>

definition example_form :: form where
  "example_form =
     \<lparr> language = ''French'', model = ''Nova'', deepgram_api_key = ''secret'',
       detect_topics = True, diarize = True, detect_entities = True, multichannel = False,
       paragraphs = True, profanity_filter = False, punctuate = False,
       redact = True, numbers = True, pci = True, ssn = False,
       search = True, search_terms = ''hello'',
       smart_format = True, summarize = True,
       utterances = True, utt_split = 0.8, clicked = True \<rparr>"

definition example_options :: PrerecordedOptions where
  "example_options =
     \<lparr> opt_model = ''nova'', opt_detect_topics = True, opt_diarize = True,
       opt_detect_entities = True, opt_multichannel = False, opt_paragraphs = True,
       opt_profanity_filter = False, opt_punctuate = False,
       opt_redact = [''pci'', ''numbers''],
       opt_smart_format = True, opt_summarize = True, opt_search = ''[hello]'',
       opt_utterances = True, opt_utt_split = 0.8,
       opt_language = None, opt_detect_language = None \<rparr>"

definition example_source :: source where
  "example_source = \<lparr> buffer = Some ''RIFF'' \<rparr>"

definition example_client :: client where
  "example_client = DeepgramClient ''secret''"

definition example_app :: app where
  "example_app = \<lparr> cache = [], requests = [], page = [] \<rparr>"

text \<open>A response with one channel and one alternative.\<close>

definition example_response :: "json \<Rightarrow> string \<Rightarrow> json" where
  "example_response code text =
     JDict [(''results'',
       JDict [(''channels'',
         JList [JDict [(''detected_language'', code),
                       (''alternatives'',
                        JList [JDict [(''transcript'', JStr text),
                                      (''paragraphs'', JDict [(''transcript'', JStr (text @ ''.''))]),
                                      (''summaries'', JList [JDict [(''summary'', JStr ''greeting'')]])]])]])])]"

text \<open>A vendor whose answer to the first request differs from its later answers.\<close>

definition example_vendor :: vendor where
  "example_vendor n rq =
     (if n = 0 then Inr (example_response (JStr ''fr'') ''bonjour'')
      else Inr (example_response (JStr ''fr'') ''salut''))"

definition spanish_vendor :: vendor where
  "spanish_vendor n rq = Inr (example_response (JStr ''es'') ''hola'')"

definition timeout_vendor :: vendor where
  "timeout_vendor n rq = Inl (SdkError ''The read operation timed out'')"

definition example_repr :: "json \<Rightarrow> string" where
  "example_repr v = (case v of JStr s \<Rightarrow> quoted s | _ \<Rightarrow> ''None'')"

definition bare_vendor :: vendor where
  "bare_vendor n rq =
     Inr (JDict [(''results'',
            JDict [(''channels'',
              JList [JDict [(''alternatives'',
                             JList [JDict [(''transcript'', JStr ''hello'')]])]])])])"

definition no_settings :: "string \<rightharpoonup> string" where
  "no_settings name = None"

definition example_environ :: "string \<rightharpoonup> string" where
  "example_environ name = (if name = ''DEEPGRAM_API_KEY'' then Some ''from-environ'' else None)"

definition secret_entries :: "string \<rightharpoonup> string" where
  "secret_entries name = (if name = ''DEEPGRAM_API_KEY'' then Some ''from-secrets'' else None)"

definition example_secrets :: secrets where
  "example_secrets = Secrets_file secret_entries"

definition no_secret_entries :: secrets where
  "no_secret_entries = Secrets_file no_settings"

definition missing_secrets :: secrets where
  "missing_secrets = No_secrets_file ''No secrets files found.''"

definition other_source :: source where
  "other_source = \<lparr> buffer = Some ''OggS'' \<rparr>"

section \<open>Auxiliary facts\<close>

lemmas example_defs =
  example_form_def example_options_def example_source_def example_client_def example_app_def
  example_response_def example_vendor_def spanish_vendor_def timeout_vendor_def example_repr_def
  bare_vendor_def no_settings_def example_environ_def example_secrets_def secret_entries_def
  no_secret_entries_def missing_secrets_def other_source_def

lemmas run_defs =
  prerecorded_def prerecorded_body_def transcribe_file_def detected_language_line_def
  make_tabs_def write_transcript_def summary_path_def paragraphs_transcript_path_def
  transcript_path_def py_index_def LANGUAGES_def handler_def endswith_def

lemmas script_defs =
  script_def lang_options_def resolve_api_key_def build_options_def MODELS_def
  redact_options_def search_terms_value_def utt_split_value_def

lemma body_sent:
  "fst (prerecorded_body api dg f sent src options) = sent @ [(dg, buffer src, options)]"
  by (simp add: prerecorded_body_def transcribe_file_def Let_def split: sum.splits)

lemma body_api_error:
  "api (length sent) (dg, buffer src, options) = Inl e \<Longrightarrow>
     prerecorded_body api dg f sent src options = (sent @ [(dg, buffer src, options)], [], Inl e)"
  by (simp add: prerecorded_body_def transcribe_file_def)

lemma body_line_error:
  "api (length sent) (dg, buffer src, options) = Inr response \<Longrightarrow>
   detected_language_line response = Inl e \<Longrightarrow>
     prerecorded_body api dg f sent src options = (sent @ [(dg, buffer src, options)], [], Inl e)"
  by (simp add: prerecorded_body_def transcribe_file_def)

lemma body_rendered:
  "api (length sent) (dg, buffer src, options) = Inr response \<Longrightarrow>
   detected_language_line response = Inr line \<Longrightarrow>
     prerecorded_body api dg f sent src options =
       (sent @ [(dg, buffer src, options)],
        line @ make_tabs f response @ [Tab_write 1 response] @ write_transcript f response,
        Inr ())"
  by (simp add: prerecorded_body_def transcribe_file_def)

lemma body_raise_silent:
  "prerecorded_body api dg f sent src options = (sent', evs, Inl e) \<Longrightarrow> evs = []"
  by (auto simp: prerecorded_body_def transcribe_file_def Let_def split: sum.splits)

lemma prerecorded_hit:
  "map_of (cache s) (src, options) = Some elements \<Longrightarrow>
     prerecorded api dg f s src options = (s\<lparr>page := page s @ elements\<rparr>, Inr ())"
  by (simp add: prerecorded_def)

lemma prerecorded_raises:
  assumes "prerecorded api dg f s src options = (s', Inl e)"
  shows "map_of (cache s) (src, options) = None"
    and "s' = s\<lparr>requests := requests s @ [(dg, buffer src, options)]\<rparr>"
    and "prerecorded_body api dg f (requests s) src options =
           (requests s @ [(dg, buffer src, options)], [], Inl e)"
proof -
  show none: "map_of (cache s) (src, options) = None"
    using assms by (auto simp: prerecorded_def split: option.splits)
  obtain sent' evs r where b: "prerecorded_body api dg f (requests s) src options = (sent', evs, r)"
    by (cases "prerecorded_body api dg f (requests s) src options") auto
  from assms none b have r: "r = Inl e" and s': "s' = s\<lparr>requests := sent', page := page s @ evs\<rparr>"
    by (auto simp: prerecorded_def split: sum.splits)
  from b r have evs: "evs = []" by (auto dest: body_raise_silent)
  from b have sent': "sent' = requests s @ [(dg, buffer src, options)]"
    using body_sent [of api dg f "requests s" src options] by simp
  show "s' = s\<lparr>requests := requests s @ [(dg, buffer src, options)]\<rparr>"
    using s' evs sent' by simp
  show "prerecorded_body api dg f (requests s) src options =
           (requests s @ [(dg, buffer src, options)], [], Inl e)"
    using b r evs sent' by simp
qed

lemma prerecorded_requests:
  "requests (fst (prerecorded api dg f s src options)) =
     requests s @ (if map_of (cache s) (src, options) = None then [(dg, buffer src, options)] else [])"
proof (cases "map_of (cache s) (src, options)")
  case None
  obtain sent' evs r where b: "prerecorded_body api dg f (requests s) src options = (sent', evs, r)"
    by (cases "prerecorded_body api dg f (requests s) src options") auto
  then have "sent' = requests s @ [(dg, buffer src, options)]"
    using body_sent [of api dg f "requests s" src options] by simp
  with None b show ?thesis
    by (cases r) (simp_all add: prerecorded_def)
next
  case (Some elements)
  then show ?thesis by (simp add: prerecorded_def)
qed

lemma prerecorded_returns_cached:
  assumes "snd (prerecorded api dg f s src options) = Inr ()"
  shows "map_of (cache (fst (prerecorded api dg f s src options))) (src, options) \<noteq> None"
proof (cases "map_of (cache s) (src, options)")
  case None
  obtain sent' evs r where b: "prerecorded_body api dg f (requests s) src options = (sent', evs, r)"
    by (cases "prerecorded_body api dg f (requests s) src options") auto
  with None assms show ?thesis
    by (cases r) (simp_all add: prerecorded_def map_add_def)
next
  case (Some elements)
  then show ?thesis by (simp add: prerecorded_def)
qed

lemma handler_fst:
  "fst (handler rp api dg f s src options) =
     (case prerecorded api dg f s src options of
        (s', Inr u) \<Rightarrow> s'
      | (s', Inl e) \<Rightarrow>
          s'\<lparr>page := page s' @ (if endswith (str_exn rp e) ''timed out''
                                 then [Error_timed_out e]
                                 else [Error_generic e, Code_traceback e])\<rparr>)"
  by (simp add: handler_def split: prod.splits sum.splits)

lemma handler_requests:
  "requests (fst (handler rp api dg f s src options)) =
     requests (fst (prerecorded api dg f s src options))"
  by (simp add: handler_fst split: prod.splits sum.splits)

lemma opt_redact_build:
  assumes "build_options f = Inr options"
  shows "opt_redact options =
           (if redact f
            then (if pci f then [''pci''] else []) @ (if ssn f then [''ssn''] else []) @
                 (if numbers f then [''numbers''] else [])
            else [])"
proof -
  from assms obtain m where "map_of MODELS (model f) = Some m"
    by (cases "map_of MODELS (model f)") (simp_all add: build_options_def)
  with assms have "opt_redact options =
      concat (map (\<lambda>option. case option of Some s \<Rightarrow> [s] | None \<Rightarrow> []) (redact_options f))"
    by (auto simp: build_options_def)
  then show ?thesis
    by (simp add: redact_options_def)
qed

lemma script_fst:
  "fst (script rp api secrets environ audio f s0) =
     (case lang_options f of
        Inl e \<Rightarrow> s0\<lparr>page := []\<rparr>
      | Inr lang \<Rightarrow>
          (case resolve_api_key f secrets environ of
             Inl e \<Rightarrow> s0\<lparr>page := []\<rparr>
           | Inr None \<Rightarrow>
               s0\<lparr>page := [Error_text ''Please enter your Deepgram API key to continue'']\<rparr>
           | Inr (Some key) \<Rightarrow>
               (case build_options f of
                  Inl e \<Rightarrow> s0\<lparr>page := []\<rparr>
                | Inr options \<Rightarrow>
                    if clicked f \<and> key \<noteq> []
                    then fst (handler rp api (DeepgramClient key) f (s0\<lparr>page := []\<rparr>)
                                \<lparr>buffer = audio\<rparr> options)
                    else s0\<lparr>page := []\<rparr>)))"
  by (simp add: script_def Let_def split: sum.splits option.splits prod.splits)

lemma script_requests:
  "requests (fst (script rp api secrets environ audio f s0)) =
     (case (lang_options f, resolve_api_key f secrets environ, build_options f) of
        (Inr lang, Inr (Some key), Inr options) \<Rightarrow>
          if clicked f \<and> key \<noteq> []
          then requests s0 @
                 (if map_of (cache s0) (\<lparr>buffer = audio\<rparr>, options) = None
                  then [(DeepgramClient key, audio, options)] else [])
          else requests s0
      | _ \<Rightarrow> requests s0)"
  by (simp add: script_fst handler_requests prerecorded_requests
      split: sum.splits option.splits)





lemma prerecorded_miss_rendered:
  assumes "map_of (cache s) (src, options) = None"
    and "api (length (requests s)) (dg, buffer src, options) = Inr response"
    and "detected_language_line response = Inr line"
  shows "prerecorded api dg f s src options =
           (s\<lparr>cache := cache s @
                  [((src, options),
                    line @ make_tabs f response @ [Tab_write 1 response] @
                      write_transcript f response)],
               requests := requests s @ [(dg, buffer src, options)],
               page := page s @ line @ make_tabs f response @ [Tab_write 1 response] @
                         write_transcript f response\<rparr>,
            Inr ())"
  using assms by (simp add: prerecorded_def body_rendered)

lemma prerecorded_miss_api_error:
  assumes "map_of (cache s) (src, options) = None"
    and "api (length (requests s)) (dg, buffer src, options) = Inl e"
  shows "prerecorded api dg f s src options =
           (s\<lparr>requests := requests s @ [(dg, buffer src, options)]\<rparr>, Inl e)"
  using assms by (simp add: prerecorded_def body_api_error)

lemma prerecorded_miss_line_error:
  assumes "map_of (cache s) (src, options) = None"
    and "api (length (requests s)) (dg, buffer src, options) = Inr response"
    and "detected_language_line response = Inl e"
  shows "prerecorded api dg f s src options =
           (s\<lparr>requests := requests s @ [(dg, buffer src, options)]\<rparr>, Inl e)"
  using assms by (simp add: prerecorded_def body_line_error)

lemma py_index_LANGUAGES:
  "py_index (map snd LANGUAGES) code =
     (if code = JNull then Inr 0
      else if code = JStr ''en'' then Inr 1
      else if code = JStr ''fr'' then Inr 2
      else if code = JStr ''hi'' then Inr 3
      else Inl (ValueError code))"
  by (auto simp: py_index_def LANGUAGES_def)

lemma line_of_channel:
  assumes "subscripts response [Key ''results'', Key ''channels'', Index 0] = Inr channel"
    and "py_get channel ''detected_language'' = Inr code"
    and "truthy code"
  shows "detected_language_line response =
           (if code = JStr ''en'' then Inr [Write_detected_language code ''English'']
            else if code = JStr ''fr'' then Inr [Write_detected_language code ''French'']
            else if code = JStr ''hi'' then Inr [Write_detected_language code ''Hindi'']
            else Inl (ValueError code))"
proof -
  from assms(3) have "code \<noteq> JNull" by auto
  with assms show ?thesis
    unfolding detected_language_line_def
    by (simp add: py_index_LANGUAGES) (simp add: LANGUAGES_def)
qed

lemma handler_returns: "snd (handler rp api dg f s src options) = Inr ()"
  by (simp add: handler_def split: prod.splits sum.splits)

lemma handler_after_raise:
  assumes "prerecorded api dg f s src options =
             (s\<lparr>requests := requests s @ [(dg, buffer src, options)]\<rparr>, Inl e)"
  shows "fst (handler rp api dg f s src options) =
           s\<lparr>requests := requests s @ [(dg, buffer src, options)],
              page := page s @ (if endswith (str_exn rp e) ''timed out''
                                then [Error_timed_out e]
                                else [Error_generic e, Code_traceback e])\<rparr>"
  using assms by (simp add: handler_def)

lemma Error_exn_make_tabs:
  "summarize f \<Longrightarrow> subscripts response summary_path = Inl e \<Longrightarrow>
     Error_exn e \<in> set (make_tabs f response)"
  by (simp add: make_tabs_def)

lemma Error_exn_write_transcript:
  "(if paragraphs f \<or> smart_format f
    then subscripts response paragraphs_transcript_path
    else subscripts response transcript_path) = Inl e \<Longrightarrow>
     Error_exn e \<in> set (write_transcript f response)"
  by (simp add: write_transcript_def)

lemma prerecorded_stores:
  assumes "map_of (cache s) (src, options) = None"
    and "snd (prerecorded api dg f s src options) = Inr ()"
  shows "fst (prerecorded api dg f s src options) =
           s\<lparr>cache := cache s @
                  [((src, options), fst (snd (prerecorded_body api dg f (requests s) src options)))],
              requests := requests s @ [(dg, buffer src, options)],
              page := page s @ fst (snd (prerecorded_body api dg f (requests s) src options))\<rparr>"
proof -
  obtain sent' evs r where b: "prerecorded_body api dg f (requests s) src options = (sent', evs, r)"
    by (cases "prerecorded_body api dg f (requests s) src options") auto
  then have "sent' = requests s @ [(dg, buffer src, options)]"
    using body_sent [of api dg f "requests s" src options] by simp
  with assms b show ?thesis
    by (cases r) (simp_all add: prerecorded_def)
qed

lemma cache_kept:
  assumes "map_of (cache s) k = Some v"
  shows "map_of (cache (fst (prerecorded api dg f s src options))) k = Some v"
proof (cases "map_of (cache s) (src, options)")
  case None
  obtain sent' evs r where b: "prerecorded_body api dg f (requests s) src options = (sent', evs, r)"
    by (cases "prerecorded_body api dg f (requests s) src options") auto
  with None assms show ?thesis
    by (cases r) (simp_all add: prerecorded_def map_add_Some_iff)
next
  case (Some elements)
  with assms show ?thesis by (simp add: prerecorded_def)
qed

lemma cache_kept_calls:
  "map_of (cache s) k = Some v \<Longrightarrow> map_of (cache (prerecorded_calls s calls)) k = Some v"
  by (induction s calls rule: prerecorded_calls.induct) (simp_all add: cache_kept)

lemma api_key_with_secrets_file:
  assumes "lang_options f = Inr lang"
  shows "fst (snd (script rp api (Secrets_file entries) environ audio f s0)) =
           (if deepgram_api_key f \<noteq> [] then Some (DeepgramClient (deepgram_api_key f))
            else (case entries ''DEEPGRAM_API_KEY'' of
                    Some v \<Rightarrow> Some (DeepgramClient v)
                  | None \<Rightarrow>
                      (case environ ''DEEPGRAM_API_KEY'' of
                         Some v \<Rightarrow> Some (DeepgramClient v)
                       | None \<Rightarrow> None))) \<and>
         (deepgram_api_key f = [] \<and> entries ''DEEPGRAM_API_KEY'' = None \<and>
            environ ''DEEPGRAM_API_KEY'' = None \<longrightarrow>
            script rp api (Secrets_file entries) environ audio f s0 =
              (s0\<lparr>page := [Error_text ''Please enter your Deepgram API key to continue'']\<rparr>,
               None, Stopped))"
  using assms
  by (simp add: script_def resolve_api_key_def Let_def split: sum.splits option.splits prod.splits)

section \<open>The claims\<close>

text \<open>
  Claim C1, as amended. For every form whose model name is in \<open>MODELS\<close>, the options
  object is built, its model is the API name that \<open>MODELS\<close> gives for the selected name,
  each flag is the checkbox's value, \<open>redact\<close> lists the checked redaction kinds,
  \<open>search\<close> is the search terms between square brackets (empty terms without the Search
  checkbox) and \<open>utt_split\<close> is the number entered, or 0.8 without the Utterances checkbox.
\<close>

theorem build_options_fields:
  assumes "map_of MODELS (model f) = Some m"
  shows "\<exists>options. build_options f = Inr options \<and>
           opt_model options = m \<and>
           opt_detect_topics options = detect_topics f \<and>
           opt_diarize options = diarize f \<and>
           opt_detect_entities options = detect_entities f \<and>
           opt_multichannel options = multichannel f \<and>
           opt_paragraphs options = paragraphs f \<and>
           opt_profanity_filter options = profanity_filter f \<and>
           opt_punctuate options = punctuate f \<and>
           opt_redact options =
             filter (\<lambda>x. redact f \<and> ((x = ''pci'' \<and> pci f) \<or> (x = ''ssn'' \<and> ssn f) \<or>
                                       (x = ''numbers'' \<and> numbers f)))
                    [''pci'', ''ssn'', ''numbers''] \<and>
           opt_smart_format options = smart_format f \<and>
           opt_summarize options = summarize f \<and>
           opt_search options = ''['' @ (if search f then search_terms f else []) @ '']'' \<and>
           opt_utterances options = utterances f \<and>
           opt_utt_split options = (if utterances f then utt_split f else 0.8)"
  using assms
  by (simp add: build_options_def redact_options_def search_terms_value_def utt_split_value_def)

text \<open>The amended claim C1 at \<open>example_form\<close>.\<close>

theorem build_options_fields_witness:
  "map_of MODELS (model example_form) = Some ''nova'' \<and>
   build_options example_form = Inr example_options \<and>
   opt_search example_options = ''[hello]''"
  using build_options_fields [of example_form "''nova''"]
  by (simp add: example_form_def example_options_def MODELS_def build_options_def
      redact_options_def search_terms_value_def utt_split_value_def)

text \<open>
  Claim C1 as stated fails at \<open>example_form\<close>: French is selected and \<open>lang_options\<close> holds
  the language, but the options object has no language, and its search field is not the
  text entered.
\<close>

theorem options_not_verbatim_counterexample:
  "lang_options example_form = Inr [(''language'', JStr ''fr'')] \<and>
   build_options example_form = Inr example_options \<and>
   opt_language example_options \<noteq> Some (JStr ''fr'') \<and>
   opt_search example_options \<noteq> search_terms example_form"
  by (simp add: example_form_def example_options_def MODELS_def LANGUAGES_def build_options_def
      lang_options_def redact_options_def search_terms_value_def utt_split_value_def)

text \<open>
  Claim C2, as amended. \<open>prerecorded\<close> is cached on its arguments. An invocation whose
  source and options have an entry returns the stored result and replays the stored
  elements, without a request. An invocation without an entry sends the request; when it
  returns, it has put on the page what its body rendered and has stored exactly that
  under its source and options; when it raises, it stores nothing. No invocation removes
  or changes an entry. So after an invocation that returned, every later invocation with
  the same source and options, whatever invocations came between, sends no request and
  replays what was stored.
\<close>

theorem cache_policy:
  "(\<forall>elements. map_of (cache s) (src, options) = Some elements \<longrightarrow>
      prerecorded api dg f s src options = (s\<lparr>page := page s @ elements\<rparr>, Inr ())) \<and>
   (map_of (cache s) (src, options) = None \<longrightarrow>
      requests (fst (prerecorded api dg f s src options)) =
        requests s @ [(dg, buffer src, options)]) \<and>
   (map_of (cache s) (src, options) = None \<and>
    snd (prerecorded api dg f s src options) = Inr () \<longrightarrow>
      fst (prerecorded api dg f s src options) =
        s\<lparr>cache := cache s @
               [((src, options), fst (snd (prerecorded_body api dg f (requests s) src options)))],
           requests := requests s @ [(dg, buffer src, options)],
           page := page s @ fst (snd (prerecorded_body api dg f (requests s) src options))\<rparr>) \<and>
   (\<forall>e. snd (prerecorded api dg f s src options) = Inl e \<longrightarrow>
      cache (fst (prerecorded api dg f s src options)) = cache s \<and>
      fst (prerecorded api dg f s src options) =
        s\<lparr>requests := requests s @ [(dg, buffer src, options)]\<rparr>) \<and>
   (\<forall>k v. map_of (cache s) k = Some v \<longrightarrow>
      map_of (cache (fst (prerecorded api dg f s src options))) k = Some v) \<and>
   (snd (prerecorded api dg f s src options) = Inr () \<longrightarrow>
      requests (fst (prerecorded api' dg' f' (fst (prerecorded api dg f s src options)) src options)) =
        requests (fst (prerecorded api dg f s src options))) \<and>
   (snd (prerecorded api dg f s src options) = Inr () \<longrightarrow>
      (\<forall>calls api'' dg'' f''.
         prerecorded api'' dg'' f''
           (prerecorded_calls (fst (prerecorded api dg f s src options)) calls) src options =
           ((prerecorded_calls (fst (prerecorded api dg f s src options)) calls)
              \<lparr>page := page (prerecorded_calls (fst (prerecorded api dg f s src options)) calls) @
                 (case map_of (cache s) (src, options) of
                    Some elements \<Rightarrow> elements
                  | None \<Rightarrow> fst (snd (prerecorded_body api dg f (requests s) src options)))\<rparr>,
            Inr ())))"
proof (intro conjI allI impI)
  fix elements
  assume "map_of (cache s) (src, options) = Some elements"
  then show "prerecorded api dg f s src options = (s\<lparr>page := page s @ elements\<rparr>, Inr ())"
    by (rule prerecorded_hit)
next
  assume "map_of (cache s) (src, options) = None"
  then show "requests (fst (prerecorded api dg f s src options)) =
        requests s @ [(dg, buffer src, options)]"
    by (simp add: prerecorded_requests)
next
  assume "map_of (cache s) (src, options) = None \<and>
    snd (prerecorded api dg f s src options) = Inr ()"
  then show "fst (prerecorded api dg f s src options) =
        s\<lparr>cache := cache s @
               [((src, options), fst (snd (prerecorded_body api dg f (requests s) src options)))],
           requests := requests s @ [(dg, buffer src, options)],
           page := page s @ fst (snd (prerecorded_body api dg f (requests s) src options))\<rparr>"
    by (simp add: prerecorded_stores)
next
  fix e
  assume "snd (prerecorded api dg f s src options) = Inl e"
  then have r: "prerecorded api dg f s src options = (fst (prerecorded api dg f s src options), Inl e)"
    by (metis prod.collapse)
  from prerecorded_raises(2) [OF r]
  show "fst (prerecorded api dg f s src options) =
        s\<lparr>requests := requests s @ [(dg, buffer src, options)]\<rparr>" .
  then show "cache (fst (prerecorded api dg f s src options)) = cache s"
    by simp
next
  fix k v
  assume "map_of (cache s) k = Some v"
  then show "map_of (cache (fst (prerecorded api dg f s src options))) k = Some v"
    by (rule cache_kept)
next
  assume "snd (prerecorded api dg f s src options) = Inr ()"
  from prerecorded_returns_cached [OF this]
  show "requests (fst (prerecorded api' dg' f' (fst (prerecorded api dg f s src options)) src options)) =
        requests (fst (prerecorded api dg f s src options))"
    by (simp add: prerecorded_requests)
next
  fix calls api'' dg'' f''
  assume ok: "snd (prerecorded api dg f s src options) = Inr ()"
  let ?stored = "case map_of (cache s) (src, options) of
                    Some elements \<Rightarrow> elements
                  | None \<Rightarrow> fst (snd (prerecorded_body api dg f (requests s) src options))"
  have "map_of (cache (fst (prerecorded api dg f s src options))) (src, options) = Some ?stored"
  proof (cases "map_of (cache s) (src, options)")
    case None
    with ok show ?thesis by (simp add: prerecorded_stores map_add_Some_iff)
  next
    case (Some elements)
    then show ?thesis by (simp add: prerecorded_hit)
  qed
  then have "map_of (cache (prerecorded_calls (fst (prerecorded api dg f s src options)) calls))
      (src, options) = Some ?stored"
    by (rule cache_kept_calls)
  then show "prerecorded api'' dg'' f''
           (prerecorded_calls (fst (prerecorded api dg f s src options)) calls) src options =
           ((prerecorded_calls (fst (prerecorded api dg f s src options)) calls)
              \<lparr>page := page (prerecorded_calls (fst (prerecorded api dg f s src options)) calls) @
                 ?stored\<rparr>,
            Inr ())"
    by (rule prerecorded_hit)
qed

text \<open>
  The amended claim C2 at the example: a miss that returns and stores what it rendered,
  then an invocation with another source, then the first source again, which is a hit:
  two requests for three invocations.
\<close>

theorem cache_policy_witness:
  "map_of (cache example_app) (example_source, example_options) = None \<and>
   snd (prerecorded example_vendor example_client example_form example_app
          example_source example_options) = Inr () \<and>
   map_of (cache (fst (prerecorded example_vendor example_client example_form example_app
                         example_source example_options)))
     (example_source, example_options) =
     Some (page (fst (prerecorded example_vendor example_client example_form example_app
                        example_source example_options))) \<and>
   requests (fst (prerecorded example_vendor example_client example_form
       (prerecorded_calls
          (fst (prerecorded example_vendor example_client example_form example_app
                  example_source example_options))
          [(example_vendor, example_client, example_form, other_source, example_options)])
       example_source example_options)) =
     [(example_client, Some ''RIFF'', example_options),
      (example_client, Some ''OggS'', example_options)] \<and>
   written_to 2 (page (fst (prerecorded example_vendor example_client example_form
       (prerecorded_calls
          (fst (prerecorded example_vendor example_client example_form example_app
                  example_source example_options))
          [(example_vendor, example_client, example_form, other_source, example_options)])
       example_source example_options))) =
     [JStr ''bonjour.'', JStr ''salut.'', JStr ''bonjour.'']"
proof -
  have miss: "map_of (cache example_app) (example_source, example_options) = None"
    by (simp add: example_app_def)
  have ok: "snd (prerecorded example_vendor example_client example_form example_app
          example_source example_options) = Inr ()"
    by (simp add: example_defs run_defs)
  note t = cache_policy [where s = example_app and src = example_source
      and options = example_options and api = example_vendor and dg = example_client
      and f = example_form and api' = example_vendor and dg' = example_client
      and f' = example_form]
  from t miss ok have stored:
    "fst (prerecorded example_vendor example_client example_form example_app
            example_source example_options) =
     example_app\<lparr>cache := cache example_app @
         [((example_source, example_options),
           fst (snd (prerecorded_body example_vendor example_client example_form
                       (requests example_app) example_source example_options)))],
       requests := requests example_app @
         [(example_client, buffer example_source, example_options)],
       page := page example_app @
         fst (snd (prerecorded_body example_vendor example_client example_form
                     (requests example_app) example_source example_options))\<rparr>"
    by blast
  from t ok have later:
    "prerecorded example_vendor example_client example_form
       (prerecorded_calls
          (fst (prerecorded example_vendor example_client example_form example_app
                  example_source example_options))
          [(example_vendor, example_client, example_form, other_source, example_options)])
       example_source example_options =
     ((prerecorded_calls
          (fst (prerecorded example_vendor example_client example_form example_app
                  example_source example_options))
          [(example_vendor, example_client, example_form, other_source, example_options)])
        \<lparr>page := page (prerecorded_calls
          (fst (prerecorded example_vendor example_client example_form example_app
                  example_source example_options))
          [(example_vendor, example_client, example_form, other_source, example_options)]) @
          (case map_of (cache example_app) (example_source, example_options) of
             Some elements \<Rightarrow> elements
           | None \<Rightarrow> fst (snd (prerecorded_body example_vendor example_client example_form
                                   (requests example_app) example_source example_options)))\<rparr>,
      Inr ())"
    by blast
  have body: "fst (snd (prerecorded_body example_vendor example_client example_form
                     (requests example_app) example_source example_options)) =
      [Write_detected_language (JStr ''fr'') ''French'',
       Tabs [''Response'', ''Transcript'', ''Summary''],
       Tab_write 3 (JStr ''greeting''),
       Tab_write 1 (example_response (JStr ''fr'') ''bonjour''),
       Tab_write 2 (JStr ''bonjour.'')]"
    by (simp add: example_defs run_defs)
  have first: "fst (prerecorded example_vendor example_client example_form example_app
            example_source example_options) =
     \<lparr>cache = [((example_source, example_options),
         [Write_detected_language (JStr ''fr'') ''French'',
          Tabs [''Response'', ''Transcript'', ''Summary''],
          Tab_write 3 (JStr ''greeting''),
          Tab_write 1 (example_response (JStr ''fr'') ''bonjour''),
          Tab_write 2 (JStr ''bonjour.'')])],
       requests = [(example_client, Some ''RIFF'', example_options)],
       page = [Write_detected_language (JStr ''fr'') ''French'',
          Tabs [''Response'', ''Transcript'', ''Summary''],
          Tab_write 3 (JStr ''greeting''),
          Tab_write 1 (example_response (JStr ''fr'') ''bonjour''),
          Tab_write 2 (JStr ''bonjour.'')]\<rparr>"
    unfolding stored body by (simp add: example_app_def example_source_def)
  have between: "prerecorded_calls
          (fst (prerecorded example_vendor example_client example_form example_app
                  example_source example_options))
          [(example_vendor, example_client, example_form, other_source, example_options)] =
     fst (prerecorded example_vendor example_client example_form
            (fst (prerecorded example_vendor example_client example_form example_app
                    example_source example_options))
            other_source example_options)"
    by simp
  show ?thesis
    unfolding later between
    unfolding first
    using miss ok
    by (simp add: body) (simp add: example_defs run_defs)
qed

text \<open>
  Claim C2 as stated fails: after two invocations of \<open>prerecorded\<close> with the same source and
  options, one request has been sent, and the second invocation shows the transcript of
  the first response again, although the vendor would have answered differently.
\<close>

theorem second_call_is_cached_counterexample:
  "requests (fst (prerecorded example_vendor example_client example_form
       (fst (prerecorded example_vendor example_client example_form example_app
               example_source example_options))
       example_source example_options)) =
     [(example_client, buffer example_source, example_options)] \<and>
   written_to 2 (page (fst (prerecorded example_vendor example_client example_form
       (fst (prerecorded example_vendor example_client example_form example_app
               example_source example_options))
       example_source example_options))) =
     [JStr ''bonjour.'', JStr ''bonjour.'']"
  by (simp add: example_defs run_defs)

text \<open>
  Claim C3. The click handler always returns normally. An exception of the transcription
  call or of the detected-language line is shown by the handler as an error, and the
  handler does nothing else: the one request stays in the log, nothing is stored and
  nothing is retried. An exception of the summary lookup or of the transcript lookup is
  shown by \<open>st.error\<close> inside \<open>prerecorded\<close>, which then returns normally.
\<close>

theorem exceptions_caught_and_printed:
  "snd (handler rp api dg f s src options) = Inr () \<and>
   (\<forall>e. map_of (cache s) (src, options) = None \<and>
        (api (length (requests s)) (dg, buffer src, options) = Inl e \<or>
         (\<exists>response. api (length (requests s)) (dg, buffer src, options) = Inr response \<and>
                     detected_language_line response = Inl e)) \<longrightarrow>
        fst (handler rp api dg f s src options) =
          s\<lparr>requests := requests s @ [(dg, buffer src, options)],
             page := page s @ (if endswith (str_exn rp e) ''timed out''
                               then [Error_timed_out e]
                               else [Error_generic e, Code_traceback e])\<rparr>) \<and>
   (\<forall>response line e.
        map_of (cache s) (src, options) = None \<and>
        api (length (requests s)) (dg, buffer src, options) = Inr response \<and>
        detected_language_line response = Inr line \<and>
        ((summarize f \<and> subscripts response summary_path = Inl e) \<or>
         (if paragraphs f \<or> smart_format f
          then subscripts response paragraphs_transcript_path
          else subscripts response transcript_path) = Inl e) \<longrightarrow>
        Error_exn e \<in> set (page (fst (handler rp api dg f s src options))) \<and>
        snd (prerecorded api dg f s src options) = Inr () \<and>
        requests (fst (handler rp api dg f s src options)) =
          requests s @ [(dg, buffer src, options)])"
proof (intro conjI allI impI)
  show "snd (handler rp api dg f s src options) = Inr ()"
    by (rule handler_returns)
next
  fix e
  assume a: "map_of (cache s) (src, options) = None \<and>
        (api (length (requests s)) (dg, buffer src, options) = Inl e \<or>
         (\<exists>response. api (length (requests s)) (dg, buffer src, options) = Inr response \<and>
                     detected_language_line response = Inl e))"
  then have "prerecorded api dg f s src options =
             (s\<lparr>requests := requests s @ [(dg, buffer src, options)]\<rparr>, Inl e)"
    by (auto simp: prerecorded_miss_api_error prerecorded_miss_line_error)
  then show "fst (handler rp api dg f s src options) =
          s\<lparr>requests := requests s @ [(dg, buffer src, options)],
             page := page s @ (if endswith (str_exn rp e) ''timed out''
                               then [Error_timed_out e]
                               else [Error_generic e, Code_traceback e])\<rparr>"
    by (rule handler_after_raise)
next
  fix response line e
  assume a: "map_of (cache s) (src, options) = None \<and>
        api (length (requests s)) (dg, buffer src, options) = Inr response \<and>
        detected_language_line response = Inr line \<and>
        ((summarize f \<and> subscripts response summary_path = Inl e) \<or>
         (if paragraphs f \<or> smart_format f
          then subscripts response paragraphs_transcript_path
          else subscripts response transcript_path) = Inl e)"
  then have p: "prerecorded api dg f s src options =
           (s\<lparr>cache := cache s @
                  [((src, options),
                    line @ make_tabs f response @ [Tab_write 1 response] @
                      write_transcript f response)],
               requests := requests s @ [(dg, buffer src, options)],
               page := page s @ line @ make_tabs f response @ [Tab_write 1 response] @
                         write_transcript f response\<rparr>,
            Inr ())"
    by (simp add: prerecorded_miss_rendered)
  from a have "Error_exn e \<in> set (make_tabs f response) \<or>
      Error_exn e \<in> set (write_transcript f response)"
    using Error_exn_make_tabs [of f response e] Error_exn_write_transcript [of f response e]
    by blast
  with p show "Error_exn e \<in> set (page (fst (handler rp api dg f s src options)))"
    by (auto simp: handler_def)
  from p show "snd (prerecorded api dg f s src options) = Inr ()"
    by simp
  from p show "requests (fst (handler rp api dg f s src options)) =
          requests s @ [(dg, buffer src, options)]"
    by (simp add: handler_def)
qed

text \<open>
  Claim C3 at a vendor that times out, and at a response without summaries while
  Summarization is enabled.
\<close>

theorem exceptions_caught_and_printed_witness:
  "map_of (cache example_app) (example_source, example_options) = None \<and>
   timeout_vendor (length (requests example_app))
     (example_client, buffer example_source, example_options) =
     Inl (SdkError ''The read operation timed out'') \<and>
   handler example_repr timeout_vendor example_client example_form example_app example_source
     example_options =
     (example_app\<lparr>requests := [(example_client, Some ''RIFF'', example_options)],
                   page := [Error_timed_out (SdkError ''The read operation timed out'')]\<rparr>,
      Inr ()) \<and>
   detected_language_line
     (JDict [(''results'',
        JDict [(''channels'',
          JList [JDict [(''alternatives'',
                         JList [JDict [(''transcript'', JStr ''hello'')]])]])])]) = Inr [] \<and>
   summarize example_form \<and>
   subscripts
     (JDict [(''results'',
        JDict [(''channels'',
          JList [JDict [(''alternatives'',
                         JList [JDict [(''transcript'', JStr ''hello'')]])]])])])
     summary_path = Inl (KeyError (JStr ''summaries'')) \<and>
   Error_exn (KeyError (JStr ''summaries'')) \<in>
     set (page (fst (handler example_repr bare_vendor example_client example_form example_app
                       example_source example_options)))"
proof -
  let ?r = "JDict [(''results'',
        JDict [(''channels'',
          JList [JDict [(''alternatives'',
                         JList [JDict [(''transcript'', JStr ''hello'')]])]])])]"
  have a: "map_of (cache example_app) (example_source, example_options) = None"
    by (simp add: example_app_def)
  have b: "timeout_vendor (length (requests example_app))
     (example_client, buffer example_source, example_options) =
     Inl (SdkError ''The read operation timed out'')"
    by (simp add: timeout_vendor_def)
  have c: "endswith (str_exn example_repr (SdkError ''The read operation timed out'')) ''timed out''"
    by (simp add: endswith_def)
  have d: "bare_vendor (length (requests example_app))
     (example_client, buffer example_source, example_options) = Inr ?r"
    by (simp add: bare_vendor_def)
  have e: "detected_language_line ?r = Inr []"
    by (simp add: detected_language_line_def)
  have g: "summarize example_form"
    by (simp add: example_form_def)
  have h: "subscripts ?r summary_path = Inl (KeyError (JStr ''summaries''))"
    by (simp add: summary_path_def)
  note t1 = exceptions_caught_and_printed [where rp = example_repr and api = timeout_vendor
      and dg = example_client and f = example_form and s = example_app
      and src = example_source and options = example_options]
  note t2 = exceptions_caught_and_printed [where rp = example_repr and api = bare_vendor
      and dg = example_client and f = example_form and s = example_app
      and src = example_source and options = example_options]
  from t1 a b c have 1: "handler example_repr timeout_vendor example_client example_form
      example_app example_source example_options =
     (example_app\<lparr>requests := [(example_client, Some ''RIFF'', example_options)],
                   page := [Error_timed_out (SdkError ''The read operation timed out'')]\<rparr>,
      Inr ())"
    by (simp add: prod_eq_iff example_app_def example_source_def)
  from t2 a d e g h have 2: "Error_exn (KeyError (JStr ''summaries'')) \<in>
     set (page (fst (handler example_repr bare_vendor example_client example_form example_app
                       example_source example_options)))"
    by blast
  from a b 1 e g h 2 show ?thesis by simp
qed

text \<open>
  Claim C4, as amended. An invocation of \<open>prerecorded\<close> sends exactly one request, with the
  payload and the options, when its arguments have no cache entry, and none when they
  have one. A run of the script sends at most one request, and none when the button is not
  clicked.
\<close>

theorem requests_issued:
  "requests (fst (prerecorded api dg f s src options)) =
     requests s @
       (if map_of (cache s) (src, options) = None then [(dg, buffer src, options)] else []) \<and>
   (requests (fst (script rp api secrets environ audio f s0)) = requests s0 \<or>
    (\<exists>key options'. requests (fst (script rp api secrets environ audio f s0)) =
        requests s0 @ [(DeepgramClient key, audio, options')])) \<and>
   (\<not> clicked f \<longrightarrow> requests (fst (script rp api secrets environ audio f s0)) = requests s0)"
proof (intro conjI impI)
  show "requests (fst (prerecorded api dg f s src options)) =
     requests s @
       (if map_of (cache s) (src, options) = None then [(dg, buffer src, options)] else [])"
    by (rule prerecorded_requests)
  show "requests (fst (script rp api secrets environ audio f s0)) = requests s0 \<or>
    (\<exists>key options'. requests (fst (script rp api secrets environ audio f s0)) =
        requests s0 @ [(DeepgramClient key, audio, options')])"
    by (simp add: script_requests split: sum.splits option.splits)
  assume "\<not> clicked f"
  then show "requests (fst (script rp api secrets environ audio f s0)) = requests s0"
    by (simp add: script_requests split: sum.splits option.splits)
qed

text \<open>The amended claim C4 at the example, and at the same form with the button not clicked.\<close>

theorem requests_issued_witness:
  "map_of (cache example_app) (example_source, example_options) = None \<and>
   requests (fst (prerecorded example_vendor example_client (example_form\<lparr>clicked := False\<rparr>)
                    example_app example_source example_options)) =
     [(example_client, Some ''RIFF'', example_options)] \<and>
   \<not> clicked (example_form\<lparr>clicked := False\<rparr>) \<and>
   requests (fst (script example_repr example_vendor no_secret_entries no_settings (Some ''RIFF'')
                    (example_form\<lparr>clicked := False\<rparr>) example_app)) = []"
  using requests_issued [where api = example_vendor and dg = example_client
      and f = "example_form\<lparr>clicked := False\<rparr>" and s = example_app and src = example_source
      and options = example_options and rp = example_repr and secrets = no_secret_entries
      and environ = no_settings and audio = "Some ''RIFF''" and ?s0.0 = example_app]
  by (simp add: example_defs run_defs)

text \<open>
  Claim C4 as stated fails: a second run of the script with the same form and audio, the
  button clicked again, invokes \<open>prerecorded\<close> and sends no request.
\<close>

theorem second_click_sends_nothing_counterexample:
  "requests (fst (script example_repr example_vendor no_secret_entries no_settings (Some ''RIFF'')
       example_form example_app)) =
     [(example_client, Some ''RIFF'', example_options)] \<and>
   requests (fst (script example_repr example_vendor no_secret_entries no_settings (Some ''RIFF'')
       example_form
       (fst (script example_repr example_vendor no_secret_entries no_settings (Some ''RIFF'')
               example_form example_app)))) =
     [(example_client, Some ''RIFF'', example_options)]"
  by (simp add: example_defs run_defs script_defs Let_def)

text \<open>
  Claim C5. The \<open>redact\<close> field of the options object is the list of those of pci, ssn and
  numbers whose checkbox is checked, in this order, and it is the empty list when the
  Redaction checkbox is unchecked.
\<close>

theorem redact_field:
  assumes "build_options f = Inr options"
  shows "opt_redact options =
           (if redact f
            then (if pci f then [''pci''] else []) @ (if ssn f then [''ssn''] else []) @
                 (if numbers f then [''numbers''] else [])
            else []) \<and>
         set (opt_redact options) =
           {x \<in> {''pci'', ''ssn'', ''numbers''}.
              redact f \<and> ((x = ''pci'' \<and> pci f) \<or> (x = ''ssn'' \<and> ssn f) \<or>
                          (x = ''numbers'' \<and> numbers f))} \<and>
         (\<not> redact f \<longrightarrow> opt_redact options = [])"
proof -
  note r = opt_redact_build [OF assms]
  have "set (opt_redact options) =
           {x \<in> {''pci'', ''ssn'', ''numbers''}.
              redact f \<and> ((x = ''pci'' \<and> pci f) \<or> (x = ''ssn'' \<and> ssn f) \<or>
                          (x = ''numbers'' \<and> numbers f))}"
    unfolding r by auto
  with r show ?thesis by simp
qed

text \<open>Claim C5 at \<open>example_form\<close>, where Redaction, PCI and Numbers are checked.\<close>

theorem redact_field_witness:
  "build_options example_form = Inr example_options \<and>
   opt_redact example_options = [''pci'', ''numbers''] \<and>
   set (opt_redact example_options) = {''pci'', ''numbers''}"
proof -
  have b: "build_options example_form = Inr example_options"
    by (simp add: example_form_def example_options_def MODELS_def build_options_def
        redact_options_def search_terms_value_def utt_split_value_def)
  from redact_field [OF b] b show ?thesis
    by (simp add: example_form_def example_options_def)
qed



text \<open>
  Claim C7 fails on the code at a response whose first channel has the detected language
  es, with Summarization enabled: the field is truthy, yet the page has no
  detected-language line and no tabs, hence no Summary tab; the click handler shows its
  generic error and the traceback of the \<open>ValueError\<close>.
\<close>

theorem spanish_response_shows_no_line_and_no_tabs:
  "spanish_vendor 0 (example_client, buffer example_source, example_options) =
     Inr (example_response (JStr ''es'') ''hola'') \<and>
   (case subscripts (example_response (JStr ''es'') ''hola'')
           [Key ''results'', Key ''channels'', Index 0] of
      Inl e \<Rightarrow> Inl e
    | Inr channel \<Rightarrow> py_get channel ''detected_language'') = Inr (JStr ''es'') \<and>
   truthy (JStr ''es'') \<and>
   summarize example_form \<and>
   page (fst (handler example_repr spanish_vendor example_client example_form example_app
                example_source example_options)) =
     [Error_generic (ValueError (JStr ''es'')), Code_traceback (ValueError (JStr ''es''))] \<and>
   detected_lines (page (fst (handler example_repr spanish_vendor example_client example_form
                                example_app example_source example_options))) = [] \<and>
   tab_labels (page (fst (handler example_repr spanish_vendor example_client example_form
                            example_app example_source example_options))) = []"
  by (simp add: example_defs run_defs quoted_def)

text \<open>
  Claim C8 fails on the code when the text input is empty and there is no secrets file:
  the test of line 125 raises, so the script ends with that exception, whether or not the
  environment holds \<open>DEEPGRAM_API_KEY\<close>. The key of the environment is not used, the
  error of line 130 is not shown, the script is not stopped by \<^verbatim>\<open>st.stop()\<close>, and no client
  is created.
\<close>

theorem environment_key_not_reached_without_secrets_file:
  "deepgram_api_key (example_form\<lparr>deepgram_api_key := []\<rparr>) = [] \<and>
   example_environ ''DEEPGRAM_API_KEY'' = Some ''from-environ'' \<and>
   script example_repr example_vendor missing_secrets example_environ (Some ''RIFF'')
     (example_form\<lparr>deepgram_api_key := []\<rparr>) example_app =
     (example_app, None, Crashed (FileNotFoundError ''No secrets files found.'')) \<and>
   no_settings ''DEEPGRAM_API_KEY'' = None \<and>
   script example_repr example_vendor missing_secrets no_settings (Some ''RIFF'')
     (example_form\<lparr>deepgram_api_key := []\<rparr>) example_app =
     (example_app, None, Crashed (FileNotFoundError ''No secrets files found.''))"
  by (simp add: script_def lang_options_def resolve_api_key_def LANGUAGES_def example_form_def
      example_environ_def no_settings_def missing_secrets_def example_app_def)

text \<open>
  Claim C9. Let the first channel of the response hold a truthy \<open>detected_language\<close>. If it
  is none of en, fr and hi, the lookup of its display name raises \<open>ValueError\<close>, and the
  exception leaves \<open>prerecorded\<close> with nothing put on the page. The detected-language line
  succeeds exactly for these three codes, with the names English, French and Hindi.
\<close>

theorem detected_language_lookup_partial:
  assumes "subscripts response [Key ''results'', Key ''channels'', Index 0] = Inr channel"
    and "py_get channel ''detected_language'' = Inr code"
    and "truthy code"
  shows "(code \<notin> {JStr ''en'', JStr ''fr'', JStr ''hi''} \<longrightarrow>
            detected_language_line response = Inl (ValueError code) \<and>
            (api (length sent) (dg, buffer src, options) = Inr response \<longrightarrow>
               prerecorded_body api dg f sent src options =
                 (sent @ [(dg, buffer src, options)], [], Inl (ValueError code)))) \<and>
         ((\<exists>line. detected_language_line response = Inr line) \<longleftrightarrow>
            code \<in> {JStr ''en'', JStr ''fr'', JStr ''hi''}) \<and>
         (code = JStr ''en'' \<longrightarrow>
            detected_language_line response = Inr [Write_detected_language code ''English'']) \<and>
         (code = JStr ''fr'' \<longrightarrow>
            detected_language_line response = Inr [Write_detected_language code ''French'']) \<and>
         (code = JStr ''hi'' \<longrightarrow>
            detected_language_line response = Inr [Write_detected_language code ''Hindi''])"
proof -
  note l = line_of_channel [OF assms]
  have 1: "code \<notin> {JStr ''en'', JStr ''fr'', JStr ''hi''} \<longrightarrow>
            detected_language_line response = Inl (ValueError code) \<and>
            (api (length sent) (dg, buffer src, options) = Inr response \<longrightarrow>
               prerecorded_body api dg f sent src options =
                 (sent @ [(dg, buffer src, options)], [], Inl (ValueError code)))"
    using l by (auto simp: body_line_error)
  have 2: "(\<exists>line. detected_language_line response = Inr line) \<longleftrightarrow>
            code \<in> {JStr ''en'', JStr ''fr'', JStr ''hi''}"
    using l by auto
  from 1 2 l show ?thesis by simp
qed

text \<open>Claim C9 at a response whose detected language is es.\<close>

theorem detected_language_lookup_partial_witness:
  "subscripts (example_response (JStr ''es'') ''hola'')
     [Key ''results'', Key ''channels'', Index 0] =
     Inr (JDict [(''detected_language'', JStr ''es''),
                 (''alternatives'',
                  JList [JDict [(''transcript'', JStr ''hola''),
                                (''paragraphs'', JDict [(''transcript'', JStr ''hola.'')]),
                                (''summaries'', JList [JDict [(''summary'', JStr ''greeting'')]])]])]) \<and>
   truthy (JStr ''es'') \<and>
   JStr ''es'' \<notin> {JStr ''en'', JStr ''fr'', JStr ''hi''} \<and>
   detected_language_line (example_response (JStr ''es'') ''hola'') =
     Inl (ValueError (JStr ''es'')) \<and>
   prerecorded_body spanish_vendor example_client example_form [] example_source example_options =
     ([(example_client, buffer example_source, example_options)], [],
      Inl (ValueError (JStr ''es'')))"
proof -
  let ?channel = "JDict [(''detected_language'', JStr ''es''),
                 (''alternatives'',
                  JList [JDict [(''transcript'', JStr ''hola''),
                                (''paragraphs'', JDict [(''transcript'', JStr ''hola.'')]),
                                (''summaries'', JList [JDict [(''summary'', JStr ''greeting'')]])]])]"
  have a: "subscripts (example_response (JStr ''es'') ''hola'')
     [Key ''results'', Key ''channels'', Index 0] = Inr ?channel"
    by (simp add: example_response_def)
  have b: "py_get ?channel ''detected_language'' = Inr (JStr ''es'')"
    by simp
  have c: "truthy (JStr ''es'')"
    by simp
  have d: "spanish_vendor (length ([] :: request list))
             (example_client, buffer example_source, example_options) =
           Inr (example_response (JStr ''es'') ''hola'')"
    by (simp add: spanish_vendor_def)
  from detected_language_lookup_partial [OF a b c, where api = spanish_vendor
      and sent = "[]" and dg = example_client and src = example_source
      and options = example_options and f = example_form] a c d
  show ?thesis by simp
qed

text \<open>
  Claim C10. When an exception \<open>e\<close> leaves \<open>prerecorded\<close> in the click handler and its message
  ends with "timed out", the handler adds the time-out message and nothing else to the
  page, so no traceback; for every other exception it adds the generic message followed by
  the traceback.
\<close>

theorem handler_messages:
  assumes "prerecorded api dg f s src options = (s', Inl e)"
  shows "(endswith (str_exn rp e) ''timed out'' \<longrightarrow>
            page (fst (handler rp api dg f s src options)) = page s @ [Error_timed_out e]) \<and>
         (\<not> endswith (str_exn rp e) ''timed out'' \<longrightarrow>
            page (fst (handler rp api dg f s src options)) =
              page s @ [Error_generic e, Code_traceback e])"
proof -
  from prerecorded_raises(2) [OF assms] have "page s' = page s"
    by simp
  with assms show ?thesis
    by (simp add: handler_def)
qed

text \<open>Claim C10 at a time-out of the vendor and at a \<open>ValueError\<close> of the language lookup.\<close>

theorem handler_messages_witness:
  "prerecorded timeout_vendor example_client example_form example_app example_source
     example_options =
     (example_app\<lparr>requests := [(example_client, Some ''RIFF'', example_options)]\<rparr>,
      Inl (SdkError ''The read operation timed out'')) \<and>
   endswith (str_exn example_repr (SdkError ''The read operation timed out'')) ''timed out'' \<and>
   page (fst (handler example_repr timeout_vendor example_client example_form example_app
                example_source example_options)) =
     [Error_timed_out (SdkError ''The read operation timed out'')] \<and>
   prerecorded spanish_vendor example_client example_form example_app example_source
     example_options =
     (example_app\<lparr>requests := [(example_client, Some ''RIFF'', example_options)]\<rparr>,
      Inl (ValueError (JStr ''es''))) \<and>
   \<not> endswith (str_exn example_repr (ValueError (JStr ''es''))) ''timed out'' \<and>
   page (fst (handler example_repr spanish_vendor example_client example_form example_app
                example_source example_options)) =
     [Error_generic (ValueError (JStr ''es'')), Code_traceback (ValueError (JStr ''es''))]"
proof -
  have a: "prerecorded timeout_vendor example_client example_form example_app example_source
     example_options =
     (example_app\<lparr>requests := [(example_client, Some ''RIFF'', example_options)]\<rparr>,
      Inl (SdkError ''The read operation timed out''))"
    by (simp add: example_defs run_defs)
  have b: "prerecorded spanish_vendor example_client example_form example_app example_source
     example_options =
     (example_app\<lparr>requests := [(example_client, Some ''RIFF'', example_options)]\<rparr>,
      Inl (ValueError (JStr ''es'')))"
    by (simp add: example_defs run_defs)
  have c: "endswith (str_exn example_repr (SdkError ''The read operation timed out'')) ''timed out''"
    by (simp add: endswith_def)
  have d: "\<not> endswith (str_exn example_repr (ValueError (JStr ''es''))) ''timed out''"
    by (simp add: endswith_def example_repr_def quoted_def)
  from handler_messages [OF a, of example_repr] handler_messages [OF b, of example_repr] a b c d
  show ?thesis
    by (simp add: example_app_def)
qed

end
